theory Spec2Isabelle
  imports Complex_Main
begin

section \<open>Data model (types/sleep.ts)\<close>

text \<open>
  A JavaScript \<open>number\<close> is modelled as a \<open>real\<close> where the source computes with fractions
  (probabilities, accelerations, hours) and as an \<open>int\<close> where it holds a count of
  milliseconds or a rounded score. Rounding error of IEEE doubles and the values NaN and
  Infinity are outside the model. A \<open>Date\<close> is the number of milliseconds since the epoch
  that its \<open>getTime()\<close> returns.
\<close>

type_synonym date = int

text \<open>The \<open>acceleration\<close> object \<open>{x, y, z}\<close> and the \<open>rotation\<close> object
  \<open>{alpha, beta, gamma}\<close> of a motion sample.\<close>

record acceleration3 =
  acc_x :: real
  acc_y :: real
  acc_z :: real

record rotation3 =
  rot_alpha :: real
  rot_beta :: real
  rot_gamma :: real

record DeviceMotionData =
  timestamp :: int
  acceleration :: acceleration3
  rotation :: rotation3

text \<open>Fields \<open>id\<close> and \<open>notes\<close> of the source are \<open>session_id\<close> and \<open>session_notes\<close> here
  (\<open>id\<close> is a constant of HOL, \<open>notes\<close> a keyword of Isar).\<close>

record SleepSession =
  session_id :: string
  bedtime :: date
  wakeTime :: "date option"
  duration :: int
  quality :: int
  isManual :: bool
  confidence :: real
  session_notes :: "string option"
  createdAt :: "date option"
  updatedAt :: "date option"

text \<open>The snapshot \<open>SleepDetectionState\<close>; its fields \<open>currentSession\<close> and \<open>lastActivity\<close>
  carry the prefix \<open>st_\<close> to keep them apart from the service's private fields.\<close>

record SleepDetectionState =
  isTracking :: bool
  st_currentSession :: "SleepSession option"
  st_lastActivity :: date
  inactivityDuration :: int
  sleepProbability :: real

section \<open>The platform around the service\<close>

text \<open>What the motion source hands to the listener: \<open>acceleration\<close> and \<open>rotation\<close> may be
  missing (null), and the listener then substitutes zeros.\<close>

record motionData =
  md_acceleration :: "acceleration3 option"
  md_rotation :: "rotation3 option"

datatype permission_status = Granted | Denied | Undetermined

datatype error = Motion_permissions_not_granted | AsyncStorage_failed

text \<open>An awaited promise either resolves or rejects with an error.\<close>

datatype outcome = Resolved | Rejected error

datatype console_entry = Console_log string | Console_error string

text \<open>
  One record holds the private fields of the singleton \<open>SleepDetectionService\<close> (the first
  six fields; \<open>_isServiceActive\<close> is \<open>isServiceActive\<close>) and the part of the platform the
  service acts on: the listeners registered with \<open>DeviceMotion\<close>, the timers set with
  \<open>setInterval\<close>, the two \<open>AsyncStorage\<close> items the code writes (the JSON text under
  \<open>sleep_sessions\<close> is represented by the list of sessions it encodes), and the console.
  A subscription or a timer is a handle, a number taken from \<open>fresh\<close>.
\<close>

record world =
  isServiceActive :: bool
  motionSubscription :: "nat option"
  detectionInterval :: "nat option"
  lastActivity :: date
  motionBuffer :: "DeviceMotionData list"
  currentSession :: "SleepSession option"
  listeners :: "nat list"
  intervals :: "nat list"
  item_sleepTracking :: "string option"
  item_sleep_sessions :: "SleepSession list option"
  console :: "console_entry list"
  fresh :: nat

text \<open>What one evaluation tick reads from its environment: the clock at the top of
  \<open>performSleepDetection\<close>, the clock in \<open>startSleepSession\<close> (\<open>Date.now()\<close>), the clock in
  \<open>endSleepSession\<close> (\<open>new Date()\<close>), and whether the \<open>AsyncStorage\<close> read and write fail.\<close>

record tick_io =
  t_now :: date
  t_start :: date
  t_end :: date
  getItem_fails :: bool
  setItem_fails :: bool

section \<open>Detection thresholds\<close>

definition INACTIVITY_THRESHOLD :: int where
  "INACTIVITY_THRESHOLD = 15 * 60 * 1000"

definition MOTION_THRESHOLD :: real where
  "MOTION_THRESHOLD = 1 / 10"

definition SLEEP_CONFIDENCE_THRESHOLD :: real where
  "SLEEP_CONFIDENCE_THRESHOLD = 8 / 10"

definition DETECTION_INTERVAL :: int where
  "DETECTION_INTERVAL = 30 * 1000"

section \<open>Motion buffer\<close>

definition magnitude :: "acceleration3 \<Rightarrow> real" where
  "magnitude a = sqrt ((acc_x a)\<^sup>2 + (acc_y a)\<^sup>2 + (acc_z a)\<^sup>2)"

definition hasSignificantMotion :: "DeviceMotionData \<Rightarrow> bool" where
  "hasSignificantMotion motion = (magnitude (acceleration motion) > MOTION_THRESHOLD)"

text \<open>\<open>xs.slice(-n)\<close>: the last \<open>n\<close> elements, all of them when there are fewer.\<close>

definition slice_last :: "nat \<Rightarrow> 'a list \<Rightarrow> 'a list" where
  "slice_last n xs = drop (length xs - n) xs"

definition getRecentMotionLevel :: "world \<Rightarrow> real" where
  "getRecentMotionLevel w =
     (if length (motionBuffer w) = 0 then 0
      else
        let recentMotions = slice_last 60 (motionBuffer w);
            motionSum = foldl (\<lambda>sum motion. sum + magnitude (acceleration motion)) 0 recentMotions
        in min (motionSum / real (length recentMotions) / MOTION_THRESHOLD) 1)"

text \<open>The listener registered by \<open>startMotionMonitoring\<close>, called with the clock reading
  \<open>now\<close> and the platform's sample.\<close>

definition toMotion :: "date \<Rightarrow> motionData \<Rightarrow> DeviceMotionData" where
  "toMotion now md =
     \<lparr> timestamp = now,
       acceleration = (case md_acceleration md of
                         None \<Rightarrow> \<lparr> acc_x = 0, acc_y = 0, acc_z = 0 \<rparr>
                       | Some a \<Rightarrow> a),
       rotation = (case md_rotation md of
                     None \<Rightarrow> \<lparr> rot_alpha = 0, rot_beta = 0, rot_gamma = 0 \<rparr>
                   | Some r \<Rightarrow> r) \<rparr>"

definition motionListener :: "date \<Rightarrow> motionData \<Rightarrow> world \<Rightarrow> world" where
  "motionListener now md w =
     (if \<not> isServiceActive w then w
      else
        let motion = toMotion now md;
            pushed = motionBuffer w @ [motion];
            w1 = w\<lparr> motionBuffer := (if length pushed > 300 then tl pushed else pushed) \<rparr>
        in if hasSignificantMotion motion then w1\<lparr> lastActivity := now \<rparr> else w1)"

section \<open>Probability model\<close>

text \<open>\<open>getHours\<close>, the local hour of a date, depends on the device's time zone; it is a
  parameter. \<open>utcHours\<close> is the instance for a device on UTC.\<close>

definition utcHours :: "date \<Rightarrow> int" where
  "utcHours d = (d div 3600000) mod 24"

definition calculateSleepProbability :: "(date \<Rightarrow> int) \<Rightarrow> world \<Rightarrow> int \<Rightarrow> date \<Rightarrow> real" where
  "calculateSleepProbability getHours w inactivity currentTime =
     (let probability0 = 0;
          inactivityFactor = min (real_of_int inactivity / real_of_int INACTIVITY_THRESHOLD) 1 * (4 / 10);
          probability1 = probability0 + inactivityFactor;
          hour = getHours currentTime;
          timeOfDayFactor =
            (if hour \<ge> 22 \<or> hour \<le> 6 then 3 / 10
             else if hour \<ge> 13 \<and> hour \<le> 15 then 15 / 100
             else 0);
          probability2 = probability1 + timeOfDayFactor;
          recentMotion = getRecentMotionLevel w;
          motionFactor = (1 - recentMotion) * (2 / 10);
          probability3 = probability2 + motionFactor;
          probability4 = (if hour \<ge> 23 \<or> hour \<le> 6 then probability3 + 1 / 10 else probability3)
      in min probability4 1)"

section \<open>Quality scoring\<close>

text \<open>\<open>Math.round\<close>: the nearest integer, a tie going up.\<close>

definition Math_round :: "real \<Rightarrow> int" where
  "Math_round v = \<lfloor>v + 1 / 2\<rfloor>"

definition calculateMotionQuality :: "world \<Rightarrow> int" where
  "calculateMotionQuality w = (let avgMotion = getRecentMotionLevel w in Math_round ((1 - avgMotion) * 100))"

definition calculateSleepQuality :: "world \<Rightarrow> int \<Rightarrow> int" where
  "calculateSleepQuality w dur =
     (let hours = real_of_int dur / (1000 * 60 * 60);
          quality0 =
            (if hours \<ge> 7 \<and> hours \<le> 9 then 90
             else if hours \<ge> 6 \<and> hours \<le> 10 then 75
             else if hours \<ge> 5 \<and> hours \<le> 11 then 60
             else (40 :: real));
          motionQuality = calculateMotionQuality w;
          quality1 = (quality0 + real_of_int motionQuality) / 2
      in Math_round (max 0 (min 100 quality1)))"

section \<open>Session store (services/storage.ts)\<close>

text \<open>\<open>Array.prototype.findIndex\<close>: the index of the first element that satisfies the
  predicate, \<open>-1\<close> when there is none.\<close>

fun findIndex :: "('a \<Rightarrow> bool) \<Rightarrow> 'a list \<Rightarrow> int" where
  "findIndex p [] = -1"
| "findIndex p (a # as) =
     (if p a then 0 else (let i = findIndex p as in if i < 0 then -1 else i + 1))"

text \<open>\<open>getSleepSessions\<close> catches every failure of the read, logs it and answers with the
  empty list.\<close>

definition getSleepSessions :: "bool \<Rightarrow> world \<Rightarrow> SleepSession list \<times> world" where
  "getSleepSessions read_fails w =
     (if read_fails
      then ([], w\<lparr> console := console w @ [Console_error ''Failed to get sleep sessions:''] \<rparr>)
      else (case item_sleep_sessions w of None \<Rightarrow> ([], w) | Some sessions \<Rightarrow> (sessions, w)))"

text \<open>\<open>saveSleepSession\<close> replaces the stored session with the same id or appends; a
  failure of the write is logged and thrown again.\<close>

definition saveSleepSession :: "bool \<Rightarrow> bool \<Rightarrow> SleepSession \<Rightarrow> world \<Rightarrow> outcome \<times> world" where
  "saveSleepSession read_fails write_fails session w =
     (let (existingSessions, w1) = getSleepSessions read_fails w;
          sessionIndex = findIndex (\<lambda>s. session_id s = session_id session) existingSessions;
          updated = (if sessionIndex \<ge> 0 then existingSessions[nat sessionIndex := session]
                     else existingSessions @ [session])
      in if write_fails
         then (Rejected AsyncStorage_failed,
               w1\<lparr> console := console w1 @ [Console_error ''Failed to save sleep session:''] \<rparr>)
         else (Resolved, w1\<lparr> item_sleep_sessions := Some updated \<rparr>))"

section \<open>Session state machine (services/sleepDetection.ts)\<close>

text \<open>\<open>Number.prototype.toString\<close> on an integer: its decimal digits, with a minus sign
  when it is negative.\<close>

fun digits10 :: "nat \<Rightarrow> string" where
  "digits10 n =
     (if n < 10 then [''0123456789'' ! n]
      else digits10 (n div 10) @ [''0123456789'' ! (n mod 10)])"

declare digits10.simps [simp del]

definition toString :: "int \<Rightarrow> string" where
  "toString i = (if i < 0 then CHR ''-'' # digits10 (nat (- i)) else digits10 (nat i))"

definition startSleepSession :: "tick_io \<Rightarrow> real \<Rightarrow> world \<Rightarrow> world" where
  "startSleepSession io conf w =
     (let bedtime_new = lastActivity w + INACTIVITY_THRESHOLD
      in w\<lparr> currentSession := Some
               \<lparr> session_id = toString (t_start io),
                 bedtime = bedtime_new,
                 wakeTime = None,
                 duration = 0,
                 quality = 0,
                 isManual = False,
                 confidence = conf,
                 session_notes = None,
                 createdAt = None,
                 updatedAt = None \<rparr>,
             console := console w @ [Console_log ''Sleep session started:''] \<rparr>)"

text \<open>When the save rejects, \<open>endSleepSession\<close> rejects with it before it reaches the
  assignment \<open>this.currentSession = null\<close>.\<close>

definition endSleepSession :: "tick_io \<Rightarrow> world \<Rightarrow> outcome \<times> world" where
  "endSleepSession io w =
     (case currentSession w of
        None \<Rightarrow> (Resolved, w)
      | Some cur \<Rightarrow>
          let wake = t_end io;
              dur = wake - bedtime cur;
              qual = calculateSleepQuality w dur;
              completedSession = cur\<lparr> wakeTime := Some wake, duration := dur, quality := qual \<rparr>
          in (case saveSleepSession (getItem_fails io) (setItem_fails io) completedSession w of
                (Rejected e, w1) \<Rightarrow> (Rejected e, w1)
              | (Resolved, w1) \<Rightarrow>
                  (Resolved, w1\<lparr> currentSession := None,
                                 console := console w1 @ [Console_log ''Sleep session ended:''] \<rparr>)))"

definition performSleepDetection :: "(date \<Rightarrow> int) \<Rightarrow> tick_io \<Rightarrow> world \<Rightarrow> outcome \<times> world" where
  "performSleepDetection getHours io w =
     (let now = t_now io;
          inactivity = now - lastActivity w;
          probability = calculateSleepProbability getHours w inactivity now;
          w1 = (if currentSession w = None \<and> probability > SLEEP_CONFIDENCE_THRESHOLD
                then startSleepSession io probability w else w)
      in if currentSession w1 \<noteq> None \<and> probability < 3 / 10
         then endSleepSession io w1 else (Resolved, w1))"

section \<open>Detection scheduler\<close>

definition startMotionMonitoring :: "string \<Rightarrow> world \<Rightarrow> world" where
  "startMotionMonitoring os w =
     (if os = ''web'' then w
      else w\<lparr> motionSubscription := Some (fresh w),
              listeners := listeners w @ [fresh w],
              fresh := Suc (fresh w) \<rparr>)"

definition startPeriodicDetection :: "world \<Rightarrow> world" where
  "startPeriodicDetection w =
     w\<lparr> detectionInterval := Some (fresh w),
        intervals := intervals w @ [fresh w],
        fresh := Suc (fresh w) \<rparr>"

text \<open>The body of the \<open>try\<close> block of \<open>startTracking\<close>: \<open>os\<close> is \<open>Platform.OS\<close>,
  \<open>status\<close> the answer to the permission request, \<open>now\<close> the clock, \<open>write_fails\<close> whether
  \<open>AsyncStorage.setItem\<close> rejects. A throw leaves the block with the state reached so far.\<close>

definition startTracking_try :: "string \<Rightarrow> permission_status \<Rightarrow> date \<Rightarrow> bool \<Rightarrow> world \<Rightarrow> outcome \<times> world" where
  "startTracking_try os status now write_fails w =
     (if os \<noteq> ''web'' \<and> status \<noteq> Granted then (Rejected Motion_permissions_not_granted, w)
      else
        let w1 = w\<lparr> isServiceActive := True, lastActivity := now \<rparr>;
            w2 = (if os \<noteq> ''web'' then startMotionMonitoring os w1 else w1);
            w3 = startPeriodicDetection w2
        in if write_fails then (Rejected AsyncStorage_failed, w3)
           else (Resolved, w3\<lparr> item_sleepTracking := Some ''true'',
                                console := console w3 @ [Console_log ''Sleep tracking started''] \<rparr>))"

text \<open>\<open>startTracking\<close>: the early return, the \<open>try\<close> block, and the \<open>catch\<close> clause, which logs
  the error and clears the flag; the promise resolves in every case.\<close>

definition startTracking :: "string \<Rightarrow> permission_status \<Rightarrow> date \<Rightarrow> bool \<Rightarrow> world \<Rightarrow> outcome \<times> world" where
  "startTracking os status now write_fails w =
     (if isServiceActive w then (Resolved, w)
      else (case startTracking_try os status now write_fails w of
              (Resolved, w1) \<Rightarrow> (Resolved, w1)
            | (Rejected e, w1) \<Rightarrow>
                (Resolved, w1\<lparr> console := console w1 @ [Console_error ''Failed to start sleep tracking:''],
                               isServiceActive := False \<rparr>)))"

definition stopTracking :: "bool \<Rightarrow> world \<Rightarrow> outcome \<times> world" where
  "stopTracking write_fails w =
     (let w1 = w\<lparr> isServiceActive := False \<rparr>;
          w2 = (case motionSubscription w1 of
                  Some h \<Rightarrow> w1\<lparr> listeners := removeAll h (listeners w1), motionSubscription := None \<rparr>
                | None \<Rightarrow> w1);
          w3 = (case detectionInterval w2 of
                  Some h \<Rightarrow> w2\<lparr> intervals := removeAll h (intervals w2), detectionInterval := None \<rparr>
                | None \<Rightarrow> w2)
      in if write_fails then (Rejected AsyncStorage_failed, w3)
         else (Resolved, w3\<lparr> item_sleepTracking := Some ''false'',
                              console := console w3 @ [Console_log ''Sleep tracking stopped''] \<rparr>))"

section \<open>Detection state snapshot\<close>

definition getDetectionState :: "(date \<Rightarrow> int) \<Rightarrow> date \<Rightarrow> world \<Rightarrow> SleepDetectionState" where
  "getDetectionState getHours now w =
     \<lparr> isTracking = isServiceActive w,
       st_currentSession = currentSession w,
       st_lastActivity = lastActivity w,
       inactivityDuration = now - lastActivity w,
       sleepProbability = calculateSleepProbability getHours w (now - lastActivity w) now \<rparr>"

section \<open>Runs of the two periodic activities\<close>

text \<open>The state of a freshly loaded module: the constructor stamps \<open>lastActivity\<close> with the
  clock, nothing is registered and nothing is stored.\<close>

definition initial :: "date \<Rightarrow> world" where
  "initial now =
     \<lparr> isServiceActive = False,
       motionSubscription = None,
       detectionInterval = None,
       lastActivity = now,
       motionBuffer = [],
       currentSession = None,
       listeners = [],
       intervals = [],
       item_sleepTracking = None,
       item_sleep_sessions = None,
       console = [],
       fresh = 1 \<rparr>"

text \<open>The platform calls back into the service in two ways: it delivers a motion sample to
  the listener, or it fires the detection timer. A run is a sequence of such calls, each
  completed before the next (a rejected tick keeps the state it reached).\<close>

datatype event = Motion date motionData | Tick tick_io

fun step :: "(date \<Rightarrow> int) \<Rightarrow> world \<Rightarrow> event \<Rightarrow> world" where
  "step getHours w (Motion now md) = motionListener now md w"
| "step getHours w (Tick io) = snd (performSleepDetection getHours io w)"

definition run :: "(date \<Rightarrow> int) \<Rightarrow> event list \<Rightarrow> world \<Rightarrow> world" where
  "run getHours es w = foldl (step getHours) w es"

text \<open>The probability a tick computes in a state.\<close>

definition tickProbability :: "(date \<Rightarrow> int) \<Rightarrow> tick_io \<Rightarrow> world \<Rightarrow> real" where
  "tickProbability getHours io w =
     calculateSleepProbability getHours w (t_now io - lastActivity w) (t_now io)"

text \<open>The transitions of the state machine a state's console records beyond the first
  \<open>n\<close> entries.\<close>

definition isTransition :: "console_entry \<Rightarrow> bool" where
  "isTransition e =
     (e = Console_log ''Sleep session started:'' \<or> e = Console_log ''Sleep session ended:'')"

definition transitionsSince :: "nat \<Rightarrow> world \<Rightarrow> console_entry list" where
  "transitionsSince n w = filter isTransition (drop n (console w))"


text \<open>A sequence of samples as the platform delivers them to the listener, and the
  buffer entries the listener makes of them.\<close>

definition deliveries :: "(date \<times> motionData) list \<Rightarrow> event list" where
  "deliveries samples = map (\<lambda>(now, md). Motion now md) samples"

definition recorded :: "(date \<times> motionData) list \<Rightarrow> DeviceMotionData list" where
  "recorded samples = map (\<lambda>(now, md). toMotion now md) samples"


section \<open>Quality scoring as the specification words it\<close>

text \<open>
  The specification (4.3.1): with \<open>hours = durationMs / 3,600,000\<close>, the duration base score
  is 90 on \<open>[7,9]\<close>, 75 on \<open>[6,10]\<close>, 60 on \<open>[5,11]\<close>, narrowest band first, else 40; the
  motion-quality score is \<open>round((1 - recentActivityLevel) * 100)\<close>; the final score is
  \<open>round(clamp((durationBase + motionQuality) / 2, 0, 100))\<close>.
\<close>

definition clamp :: "real \<Rightarrow> real \<Rightarrow> real \<Rightarrow> real" where
  "clamp v lo hi = max lo (min hi v)"

definition spec_durationBase :: "real \<Rightarrow> real" where
  "spec_durationBase hours =
     (if hours \<in> {7..9} then 90
      else if hours \<in> {6..10} then 75
      else if hours \<in> {5..11} then 60
      else 40)"

definition spec_motionQuality :: "real \<Rightarrow> int" where
  "spec_motionQuality recentActivityLevel = round ((1 - recentActivityLevel) * 100)"

definition spec_qualityScore :: "int \<Rightarrow> real \<Rightarrow> int" where
  "spec_qualityScore durationMs recentActivityLevel =
     round (clamp ((spec_durationBase (real_of_int durationMs / 3600000)
                    + real_of_int (spec_motionQuality recentActivityLevel)) / 2) 0 100)"

section \<open>Concrete devices and runs\<close>

text \<open>Times are milliseconds on a device on UTC, counted from midnight of the first day.
  A tick that reads the clock once at \<open>t\<close> and whose storage calls succeed:\<close>

definition tickAt :: "date \<Rightarrow> tick_io" where
  "tickAt t = \<lparr> t_now = t, t_start = t, t_end = t, getItem_fails = False, setItem_fails = False \<rparr>"

text \<open>A sample of a device at rest (the platform reports no acceleration) and one of a
  device being picked up.\<close>

definition sampleStill :: motionData where
  "sampleStill = \<lparr> md_acceleration = None, md_rotation = None \<rparr>"

definition shake :: motionData where
  "shake = \<lparr> md_acceleration = Some \<lparr> acc_x = 1, acc_y = 0, acc_z = 0 \<rparr>, md_rotation = None \<rparr>"

definition numbered :: "nat \<Rightarrow> date \<times> motionData" where
  "numbered n = (int n * 1000, sampleStill)"

text \<open>A service whose buffer holds one sample of strong motion.\<close>

definition shaken :: world where
  "shaken = (initial 0)\<lparr> motionBuffer :=
      [\<lparr> timestamp = 0, acceleration = \<lparr> acc_x = 1, acc_y = 0, acc_z = 0 \<rparr>,
         rotation = \<lparr> rot_alpha = 0, rot_beta = 0, rot_gamma = 0 \<rparr> \<rparr>] \<rparr>"

text \<open>Tracking started at midnight; the same, with a session opened by the tick at 00:20
  and the device picked up at 07:00:10.\<close>

definition tracking :: world where
  "tracking = snd (startTracking ''ios'' Granted 0 False (initial 0))"

definition nightSession :: SleepSession where
  "nightSession = \<lparr> session_id = toString 1200000, bedtime = 900000, wakeTime = None,
       duration = 0, quality = 0, isManual = False, confidence = 1,
       session_notes = None, createdAt = None, updatedAt = None \<rparr>"

definition asleep :: world where
  "asleep = run utcHours [Tick (tickAt 1200000), Motion 25210000 shake] tracking"


text \<open>Tracking started at 06:50; the timer then fires every 30 seconds. The tick at 06:58
  opens a session (\<open>dozing\<close>), the device is picked up at 07:00:10, and the tick at 07:00:30
  closes the session.\<close>

definition riser :: world where
  "riser = snd (startTracking ''ios'' Granted 24600000 False (initial 24600000))"

definition riserSession :: SleepSession where
  "riserSession = \<lparr> session_id = toString 25080000, bedtime = 25500000, wakeTime = None,
       duration = 0, quality = 0, isManual = False, confidence = 61 / 75,
       session_notes = None, createdAt = None, updatedAt = None \<rparr>"

definition dozing :: world where
  "dozing = riser\<lparr> currentSession := Some riserSession,
                   console := console riser @ [Console_log ''Sleep session started:''] \<rparr>"

definition earlyRiser :: "event list" where
  "earlyRiser =
     map (\<lambda>t. Tick (tickAt t))
       [24630000, 24660000, 24690000, 24720000, 24750000, 24780000, 24810000, 24840000,
        24870000, 24900000, 24930000, 24960000, 24990000, 25020000, 25050000, 25080000,
        25110000, 25140000, 25170000, 25200000]
     @ [Motion 25210000 shake, Tick (tickAt 25230000)]"

section \<open>Basic facts\<close>

lemma run_Nil: "run gh [] w = w"
  by (simp add: run_def)

lemma run_Cons: "run gh (e # es) w = run gh es (step gh w e)"
  by (simp add: run_def)

lemma run_append: "run gh (es @ fs) w = run gh fs (run gh es w)"
  by (simp add: run_def)

lemma level_empty: "motionBuffer w = [] \<Longrightarrow> getRecentMotionLevel w = 0"
  by (simp add: getRecentMotionLevel_def)

lemma level_initial: "getRecentMotionLevel (initial t) = 0"
  by (simp add: getRecentMotionLevel_def initial_def)

lemma getRecentMotionLevel_bounds: "0 \<le> getRecentMotionLevel w \<and> getRecentMotionLevel w \<le> 1"
proof -
  have nn: "0 \<le> a \<Longrightarrow> 0 \<le> foldl (\<lambda>sum motion. sum + magnitude (acceleration motion)) a ms" for a ms
    by (induction ms arbitrary: a) (auto simp: magnitude_def)
  show ?thesis
    by (auto simp: getRecentMotionLevel_def Let_def MOTION_THRESHOLD_def nn)
qed

lemmas eval_defs =
  run_def performSleepDetection_def calculateSleepProbability_def getRecentMotionLevel_def
  startSleepSession_def endSleepSession_def saveSleepSession_def getSleepSessions_def
  calculateSleepQuality_def calculateMotionQuality_def Math_round_def motionListener_def
  toMotion_def hasSignificantMotion_def magnitude_def slice_last_def tickAt_def utcHours_def
  shake_def INACTIVITY_THRESHOLD_def MOTION_THRESHOLD_def SLEEP_CONFIDENCE_THRESHOLD_def
  tickProbability_def transitionsSince_def isTransition_def Let_def

lemmas start_defs =
  startTracking_def startTracking_try_def startMotionMonitoring_def startPeriodicDetection_def
  initial_def Let_def

lemma tracking_eq:
  "tracking = \<lparr> isServiceActive = True, motionSubscription = Some 1, detectionInterval = Some 2,
       lastActivity = 0, motionBuffer = [], currentSession = None, listeners = [1],
       intervals = [2], item_sleepTracking = Some ''true'', item_sleep_sessions = None,
       console = [Console_log ''Sleep tracking started''], fresh = 3 \<rparr>"
  by (simp add: tracking_def start_defs)

section \<open>Probability model: range of the result\<close>

text \<open>The result never exceeds 1, and it is at least 0 when the inactivity duration is
  not negative.\<close>

lemma calculateSleepProbability_le_1: "calculateSleepProbability gh w d t \<le> 1"
  by (simp add: calculateSleepProbability_def Let_def)

lemma calculateSleepProbability_ge_0:
  assumes "0 \<le> d"
  shows "0 \<le> calculateSleepProbability gh w d t"
proof -
  have a: "0 \<le> min (real_of_int d / real_of_int INACTIVITY_THRESHOLD) 1 * (4 / 10)"
    using assms by (simp add: INACTIVITY_THRESHOLD_def)
  have b: "0 \<le> (1 - getRecentMotionLevel w) * (2 / 10)"
    using getRecentMotionLevel_bounds [of w] by simp
  show ?thesis
    using a b by (auto simp: calculateSleepProbability_def Let_def)
qed

text \<open>
  C1. The sleep probability is claimed to lie in \<open>[0,1]\<close> for every inactivity duration,
  negative ones included. Only the upper end is clamped (\<open>Math.min(probability, 1)\<close>): for
  an inactivity of minus 15 minutes at noon with an empty buffer the function returns
  \<open>-0.4 + 0 + 0.2 = -0.2\<close>. The snapshot computes that value when the clock reads 12:00
  and the last activity is stamped 12:15.
\<close>

theorem calculateSleepProbability_negative:
  "calculateSleepProbability utcHours (initial 44100000) (- 900000) 43200000 = - 1 / 5
   \<and> sleepProbability (getDetectionState utcHours 43200000 (initial 44100000)) = - 1 / 5"
  by (simp add: getDetectionState_def calculateSleepProbability_def level_initial utcHours_def
      INACTIVITY_THRESHOLD_def Let_def) (simp add: initial_def)

section \<open>Quality scoring\<close>

lemma calculateSleepQuality_refines:
  "calculateSleepQuality w dur = spec_qualityScore dur (getRecentMotionLevel w)"
proof -
  have h: "(1000 * 60 * 60 :: real) = 3600000"
    by simp
  show ?thesis
    by (simp only: calculateSleepQuality_def calculateMotionQuality_def Math_round_def
        spec_qualityScore_def spec_motionQuality_def spec_durationBase_def clamp_def round_def
        Let_def atLeastAtMost_iff h)
qed

lemma spec_qualityScore_8h: "spec_qualityScore (8 * 3600000) 0 = 95"
  by (simp add: spec_qualityScore_def spec_motionQuality_def spec_durationBase_def clamp_def round_def)

lemma spec_qualityScore_4h: "spec_qualityScore (4 * 3600000) 1 = 20"
  by (simp add: spec_qualityScore_def spec_motionQuality_def spec_durationBase_def clamp_def round_def)

text \<open>
  C4. For every duration the quality score the code computes is the score of the
  specification: \<open>round(clamp((durationBase + motionQuality) / 2, 0, 100))\<close> with the bands
  \<open>[7,9]\<close>, \<open>[6,10]\<close>, \<open>[5,11]\<close> tried narrowest first and
  \<open>motionQuality = round((1 - recentActivityLevel) * 100)\<close>. Eight hours at activity level
  0 score 95, four hours at activity level 1 score 20.
\<close>

theorem calculateSleepQuality_spec:
  "calculateSleepQuality w dur = spec_qualityScore dur (getRecentMotionLevel w)
   \<and> (getRecentMotionLevel w = 0 \<longrightarrow> calculateSleepQuality w (8 * 3600000) = 95)
   \<and> (getRecentMotionLevel w = 1 \<longrightarrow> calculateSleepQuality w (4 * 3600000) = 20)"
  using spec_qualityScore_8h spec_qualityScore_4h
  by (simp only: calculateSleepQuality_refines) simp

theorem calculateSleepQuality_spec_witness:
  "getRecentMotionLevel (initial 0) = 0 \<and> calculateSleepQuality (initial 0) (8 * 3600000) = 95
   \<and> getRecentMotionLevel shaken = 1 \<and> calculateSleepQuality shaken (4 * 3600000) = 20"
proof -
  have l0: "getRecentMotionLevel (initial 0) = 0"
    by (rule level_initial)
  have l1: "getRecentMotionLevel shaken = 1"
    by (simp add: getRecentMotionLevel_def shaken_def initial_def slice_last_def magnitude_def
        MOTION_THRESHOLD_def)
  show ?thesis
    using l0 l1 calculateSleepQuality_spec [of "initial 0"] calculateSleepQuality_spec [of shaken]
    by blast
qed

section \<open>Motion buffer: bound and order\<close>

lemma slice_last_append: "slice_last n (slice_last n xs @ ys) = slice_last n (xs @ ys)"
proof -
  define b where "b = length xs - n"
  have 1: "drop b xs @ ys = drop b (xs @ ys)"
    by (simp add: b_def)
  have 2: "length (drop b xs) + length ys - n + b = length xs + length ys - n"
    by (simp add: b_def)
  have len: "length (drop b xs @ ys) = length (drop b xs) + length ys"
    by simp
  have "slice_last n (drop b xs @ ys) = drop (length (drop b xs) + length ys - n) (drop b xs @ ys)"
    unfolding slice_last_def len ..
  also have "\<dots> = drop (length (drop b xs) + length ys - n) (drop b (xs @ ys))"
    by (simp only: 1)
  also have "\<dots> = drop (length xs + length ys - n) (xs @ ys)"
    by (simp only: drop_drop 2)
  finally show ?thesis
    by (simp add: slice_last_def b_def)
qed

lemma slice_last_snoc:
  "length xs \<le> n \<Longrightarrow>
   slice_last n (xs @ [a]) = (if length (xs @ [a]) > n then tl (xs @ [a]) else xs @ [a])"
  by (cases xs) (simp_all add: slice_last_def Suc_diff_le)

lemma length_slice_last: "length (slice_last n xs) \<le> n"
  by (simp add: slice_last_def)

lemma motionListener_active: "isServiceActive w \<Longrightarrow> isServiceActive (motionListener t md w)"
  by (simp add: motionListener_def Let_def)

lemma motionListener_buffer:
  "isServiceActive w \<Longrightarrow> length (motionBuffer w) \<le> 300 \<Longrightarrow>
   motionBuffer (motionListener t md w) = slice_last 300 (motionBuffer w @ [toMotion t md])"
  unfolding slice_last_snoc by (simp add: motionListener_def Let_def)


lemma run_deliveries:
  "isServiceActive w \<Longrightarrow> length (motionBuffer w) \<le> 300 \<Longrightarrow>
   isServiceActive (run gh (deliveries samples) w)
   \<and> motionBuffer (run gh (deliveries samples) w) = slice_last 300 (motionBuffer w @ recorded samples)"
proof (induction samples arbitrary: w)
  case Nil
  then show ?case
    by (simp add: deliveries_def recorded_def run_Nil slice_last_def)
next
  case (Cons s samples)
  obtain now md where s: "s = (now, md)"
    by (cases s)
  let ?w1 = "motionListener now md w"
  have a: "isServiceActive ?w1"
    using Cons.prems(1) by (rule motionListener_active)
  have b: "motionBuffer ?w1 = slice_last 300 (motionBuffer w @ [toMotion now md])"
    using Cons.prems by (rule motionListener_buffer)
  have c: "length (motionBuffer ?w1) \<le> 300"
    unfolding b by (rule length_slice_last)
  have d: "run gh (deliveries (s # samples)) w = run gh (deliveries samples) ?w1"
    by (simp add: deliveries_def s run_Cons)
  have e: "motionBuffer w @ recorded (s # samples) = (motionBuffer w @ [toMotion now md]) @ recorded samples"
    by (simp add: recorded_def s)
  show ?case
    unfolding d e using Cons.IH [OF a c] by (simp add: b slice_last_append)
qed

text \<open>
  C6. Starting from an empty buffer, after any sequence of samples delivered to the
  listener of an active service the buffer holds at most 300 entries, namely the last 300
  samples in arrival order; and each delivery appends at the tail, dropping exactly the
  head when the buffer already holds 300 entries.
\<close>

theorem motionBuffer_bounded_fifo:
  assumes "isServiceActive w" and "motionBuffer w = []"
  shows "length (motionBuffer (run gh (deliveries samples) w)) \<le> 300
     \<and> motionBuffer (run gh (deliveries samples) w) = slice_last 300 (recorded samples)
     \<and> (\<forall>earlier now md. samples = earlier @ [(now, md)] \<longrightarrow>
          motionBuffer (run gh (deliveries samples) w) =
            (if length (motionBuffer (run gh (deliveries earlier) w)) < 300
             then motionBuffer (run gh (deliveries earlier) w) @ [toMotion now md]
             else tl (motionBuffer (run gh (deliveries earlier) w)) @ [toMotion now md]))"
proof -
  have len0: "length (motionBuffer w) \<le> 300"
    using assms(2) by simp
  have all: "motionBuffer (run gh (deliveries xs) w) = slice_last 300 (recorded xs)"
    and act: "isServiceActive (run gh (deliveries xs) w)" for xs
    using run_deliveries [OF assms(1) len0, of gh xs] assms(2) by simp_all
  have bound: "length (motionBuffer (run gh (deliveries xs) w)) \<le> 300" for xs
    unfolding all by (rule length_slice_last)
  have last: "motionBuffer (run gh (deliveries (earlier @ [(now, md)])) w) =
            (if length (motionBuffer (run gh (deliveries earlier) w)) < 300
             then motionBuffer (run gh (deliveries earlier) w) @ [toMotion now md]
             else tl (motionBuffer (run gh (deliveries earlier) w)) @ [toMotion now md])"
    for earlier now md
  proof -
    let ?w = "run gh (deliveries earlier) w"
    have "run gh (deliveries (earlier @ [(now, md)])) w = motionListener now md ?w"
      by (simp add: deliveries_def run_append run_Cons run_Nil)
    moreover have "motionBuffer (motionListener now md ?w) =
        (if length (motionBuffer ?w @ [toMotion now md]) > 300
         then tl (motionBuffer ?w @ [toMotion now md]) else motionBuffer ?w @ [toMotion now md])"
      using act [of earlier] by (simp add: motionListener_def Let_def)
    moreover have "length (motionBuffer ?w) = 300 \<Longrightarrow> motionBuffer ?w \<noteq> []"
      by auto
    ultimately show ?thesis
      using bound [of earlier] by (auto simp: not_less)
  qed
  show ?thesis
    using bound all last by blast
qed

text \<open>The witness: 301 samples, one a second, delivered to a service that has just started
  tracking; the buffer then holds the samples numbered 1 to 300, the first one is gone.\<close>

theorem motionBuffer_bounded_fifo_witness:
  "isServiceActive tracking \<and> motionBuffer tracking = []
   \<and> motionBuffer (run utcHours (deliveries (map numbered [0..<301])) tracking)
       = recorded (map numbered [1..<301])"
proof -
  have a: "isServiceActive tracking" and b: "motionBuffer tracking = []"
    by (simp_all add: tracking_eq)
  show ?thesis
    using a b motionBuffer_bounded_fifo [OF a b, of utcHours "map numbered [0..<301]"]
    by (simp add: recorded_def slice_last_def drop_map)
qed

section \<open>Lifecycle: start and stop\<close>

text \<open>
  C7. After \<open>stopTracking\<close>, whether or not its write to storage succeeds, the snapshot
  reports \<open>isTracking = false\<close> and the session that was open before, unchanged; the
  service still holds that session and the stored sessions are untouched.
\<close>

theorem stopTracking_keeps_session:
  "isTracking (getDetectionState gh now (snd (stopTracking write_fails w))) = False
   \<and> st_currentSession (getDetectionState gh now (snd (stopTracking write_fails w))) = currentSession w
   \<and> currentSession (snd (stopTracking write_fails w)) = currentSession w
   \<and> item_sleep_sessions (snd (stopTracking write_fails w)) = item_sleep_sessions w"
  by (simp add: stopTracking_def getDetectionState_def Let_def split: option.split)

text \<open>
  C8, as the code has it. When the permission request on a native platform is not
  granted and tracking is not active, \<open>startTracking\<close> resolves: it changes nothing but the
  console, where it logs the failure; tracking stays inactive and no subscription and no
  timer is created. No error reaches the caller.
\<close>

theorem startTracking_denied:
  assumes "os \<noteq> ''web''" and "status \<noteq> Granted" and "\<not> isServiceActive w"
  shows "startTracking os status now write_fails w =
           (Resolved, w\<lparr> console := console w @ [Console_error ''Failed to start sleep tracking:''] \<rparr>)
     \<and> \<not> isServiceActive (snd (startTracking os status now write_fails w))
     \<and> motionSubscription (snd (startTracking os status now write_fails w)) = motionSubscription w
     \<and> detectionInterval (snd (startTracking os status now write_fails w)) = detectionInterval w
     \<and> listeners (snd (startTracking os status now write_fails w)) = listeners w
     \<and> intervals (snd (startTracking os status now write_fails w)) = intervals w"
  using assms by (simp add: startTracking_def startTracking_try_def)

theorem startTracking_denied_witness:
  "''ios'' \<noteq> ''web'' \<and> Denied \<noteq> Granted \<and> \<not> isServiceActive (initial 0)
   \<and> startTracking ''ios'' Denied 1000 False (initial 0) =
       (Resolved, (initial 0)\<lparr> console := [Console_error ''Failed to start sleep tracking:''] \<rparr>)
   \<and> motionSubscription (snd (startTracking ''ios'' Denied 1000 False (initial 0))) = None
   \<and> detectionInterval (snd (startTracking ''ios'' Denied 1000 False (initial 0))) = None
   \<and> listeners (snd (startTracking ''ios'' Denied 1000 False (initial 0))) = []
   \<and> intervals (snd (startTracking ''ios'' Denied 1000 False (initial 0))) = []"
proof -
  have a: "''ios'' \<noteq> ''web''" and b: "Denied \<noteq> Granted" and c: "\<not> isServiceActive (initial 0)"
    by (simp_all add: initial_def)
  show ?thesis
    using a b c startTracking_denied [OF a b c, of 1000 False]
    by (simp add: initial_def)
qed

text \<open>C8 as stated fails: with the permission denied the promise of \<open>startTracking\<close>
  resolves, it does not reject with the permission error.\<close>

theorem startTracking_denied_resolves:
  "fst (startTracking ''ios'' Denied 1000 False (initial 0)) = Resolved
   \<and> fst (startTracking ''ios'' Denied 1000 False (initial 0)) \<noteq> Rejected Motion_permissions_not_granted"
  by (simp add: startTracking_def startTracking_try_def initial_def)

text \<open>
  C9. In every state in which tracking is active, \<open>startTracking\<close> resolves and leaves the
  whole state as it is: flag, subscription, timer, buffer, last activity, session, and the
  platform's listeners and timers.
\<close>

theorem startTracking_idempotent:
  assumes "isServiceActive w"
  shows "startTracking os status now write_fails w = (Resolved, w)"
  using assms by (simp add: startTracking_def)

theorem startTracking_idempotent_witness:
  "isServiceActive tracking
   \<and> startTracking ''ios'' Granted 5000 False tracking = (Resolved, tracking)
   \<and> listeners (snd (startTracking ''ios'' Granted 5000 False tracking)) = [1]
   \<and> intervals (snd (startTracking ''ios'' Granted 5000 False tracking)) = [2]"
proof -
  have a: "isServiceActive tracking"
    by (simp add: tracking_eq)
  show ?thesis
    using a startTracking_idempotent [OF a, of "''ios''" Granted 5000 False]
    by (simp add: tracking_eq)
qed

section \<open>Session state machine: one tick\<close>



lemma performSleepDetection_asleep:
  assumes "currentSession w = Some cur"
  shows "performSleepDetection gh io w =
     (if tickProbability gh io w < 3 / 10 then endSleepSession io w else (Resolved, w))"
  using assms by (simp add: performSleepDetection_def tickProbability_def Let_def)

lemma tick_idle:
  "currentSession w = None \<Longrightarrow> tickProbability gh io w \<le> 8 / 10 \<Longrightarrow> step gh w (Tick io) = w"
  by (simp add: performSleepDetection_def tickProbability_def SLEEP_CONFIDENCE_THRESHOLD_def Let_def)

lemma tick_asleep:
  "currentSession w = Some cur \<Longrightarrow> tickProbability gh io w \<ge> 3 / 10 \<Longrightarrow> step gh w (Tick io) = w"
  by (simp add: performSleepDetection_asleep)









subsection \<open>What a tick writes to the console\<close>

lemma getSleepSessions_console:
  "\<exists>new. console (snd (getSleepSessions rf w)) = console w @ new \<and> filter isTransition new = []"
  by (simp add: getSleepSessions_def isTransition_def split: option.split)



lemma saveSleepSession_console:
  "\<exists>new. console (snd (saveSleepSession rf wfl s w)) = console w @ new \<and> filter isTransition new = []"
proof -
  obtain new where n: "console (snd (getSleepSessions rf w)) = console w @ new" "filter isTransition new = []"
    using getSleepSessions_console by blast
  show ?thesis
    using n by (cases "getSleepSessions rf w") (simp add: saveSleepSession_def isTransition_def Let_def)
qed

lemma endSleepSession_console:
  "\<exists>new. console (snd (endSleepSession io w)) = console w @ new
     \<and> (filter isTransition new = [] \<or>
        filter isTransition new = [Console_log ''Sleep session ended:'']
        \<and> currentSession (snd (endSleepSession io w)) = None)"
proof (cases "currentSession w")
  case None
  then show ?thesis
    by (simp add: endSleepSession_def)
next
  case (Some cur)
  let ?c = "cur\<lparr> wakeTime := Some (t_end io), duration := t_end io - bedtime cur,
                  quality := calculateSleepQuality w (t_end io - bedtime cur) \<rparr>"
  obtain r w1 where s: "saveSleepSession (getItem_fails io) (setItem_fails io) ?c w = (r, w1)"
    by (cases "saveSleepSession (getItem_fails io) (setItem_fails io) ?c w")
  obtain new where n: "console w1 = console w @ new" "filter isTransition new = []"
    using saveSleepSession_console [of "getItem_fails io" "setItem_fails io" ?c w] s by auto
  show ?thesis
    using Some s n by (cases r) (simp_all add: endSleepSession_def Let_def isTransition_def)
qed

text \<open>
  C10. A tick makes at most one transition. If it opens a session, none was open before
  and one is open after; if it closes a session, one was open before and none is open
  after: no tick opens and closes, or closes and reopens.
\<close>

theorem one_transition_per_tick:
  "length (transitionsSince (length (console w)) (snd (performSleepDetection gh io w))) \<le> 1
   \<and> (Console_log ''Sleep session started:''
         \<in> set (transitionsSince (length (console w)) (snd (performSleepDetection gh io w))) \<longrightarrow>
       currentSession w = None \<and> currentSession (snd (performSleepDetection gh io w)) \<noteq> None)
   \<and> (Console_log ''Sleep session ended:''
         \<in> set (transitionsSince (length (console w)) (snd (performSleepDetection gh io w))) \<longrightarrow>
       currentSession w \<noteq> None \<and> currentSession (snd (performSleepDetection gh io w)) = None)"
proof -
  let ?p = "tickProbability gh io w"
  show ?thesis
  proof (cases "currentSession w = None \<and> ?p > SLEEP_CONFIDENCE_THRESHOLD")
    case True
    then have "performSleepDetection gh io w = (Resolved, startSleepSession io ?p w)"
      by (simp add: performSleepDetection_def tickProbability_def SLEEP_CONFIDENCE_THRESHOLD_def
          startSleepSession_def Let_def)
    then show ?thesis
      using True by (simp add: transitionsSince_def startSleepSession_def isTransition_def)
  next
    case False
    then have e: "performSleepDetection gh io w =
        (if currentSession w \<noteq> None \<and> ?p < 3 / 10 then endSleepSession io w else (Resolved, w))"
      by (auto simp: performSleepDetection_def tickProbability_def Let_def)
    show ?thesis
    proof (cases "currentSession w \<noteq> None \<and> ?p < 3 / 10")
      case True
      then obtain cur where c: "currentSession w = Some cur"
        by auto
      obtain new where n: "console (snd (endSleepSession io w)) = console w @ new"
        "filter isTransition new = [] \<or>
         filter isTransition new = [Console_log ''Sleep session ended:'']
         \<and> currentSession (snd (endSleepSession io w)) = None"
        using endSleepSession_console by blast
      define tr where "tr = filter isTransition new"
      have tr: "transitionsSince (length (console w)) (snd (endSleepSession io w)) = tr"
        by (simp add: transitionsSince_def n(1) tr_def)
      have d: "tr = [] \<or> tr = [Console_log ''Sleep session ended:'']
                 \<and> currentSession (snd (endSleepSession io w)) = None"
        using n(2) by (simp only: tr_def)
      have p: "performSleepDetection gh io w = endSleepSession io w"
        unfolding e using True by simp
      show ?thesis
        unfolding p tr using d c by auto
    next
      case False
      have p: "performSleepDetection gh io w = (Resolved, w)"
        unfolding e by (simp only: False if_False)
      show ?thesis
        unfolding p by (simp add: transitionsSince_def)
    qed
  qed
qed

lemma asleep_eq:
  "asleep = \<lparr> isServiceActive = True, motionSubscription = Some 1, detectionInterval = Some 2,
       lastActivity = 25210000,
       motionBuffer = [\<lparr> timestamp = 25210000, acceleration = \<lparr> acc_x = 1, acc_y = 0, acc_z = 0 \<rparr>,
                        rotation = \<lparr> rot_alpha = 0, rot_beta = 0, rot_gamma = 0 \<rparr> \<rparr>],
       currentSession = Some nightSession,
       listeners = [1], intervals = [2], item_sleepTracking = Some ''true'',
       item_sleep_sessions = None,
       console = [Console_log ''Sleep tracking started'', Console_log ''Sleep session started:''],
       fresh = 3 \<rparr>"
  by (simp add: asleep_def nightSession_def tracking_eq eval_defs)





lemma tracking_tick_transitions:
  "transitionsSince (length (console tracking)) (snd (performSleepDetection utcHours (tickAt 1200000) tracking))
    = [Console_log ''Sleep session started:'']"
  by (simp add: tracking_eq eval_defs)

lemma asleep_tick_transitions:
  "transitionsSince (length (console asleep)) (snd (performSleepDetection utcHours (tickAt 25230000) asleep))
    = [Console_log ''Sleep session ended:'']"
  by (simp add: asleep_eq nightSession_def eval_defs)

text \<open>The witness: the tick at 00:20 opens a session, the tick at 07:00:30 closes it.\<close>

theorem one_transition_per_tick_witness:
  "Console_log ''Sleep session started:''
     \<in> set (transitionsSince (length (console tracking))
              (snd (performSleepDetection utcHours (tickAt 1200000) tracking)))
   \<and> currentSession tracking = None
   \<and> currentSession (snd (performSleepDetection utcHours (tickAt 1200000) tracking)) \<noteq> None
   \<and> Console_log ''Sleep session ended:''
     \<in> set (transitionsSince (length (console asleep))
              (snd (performSleepDetection utcHours (tickAt 25230000) asleep)))
   \<and> currentSession asleep \<noteq> None
   \<and> currentSession (snd (performSleepDetection utcHours (tickAt 25230000) asleep)) = None"
  using one_transition_per_tick [of tracking utcHours "tickAt 1200000"]
    one_transition_per_tick [of asleep utcHours "tickAt 25230000"]
  by (simp add: tracking_tick_transitions asleep_tick_transitions)

section \<open>Session state machine: closing a session\<close>








section \<open>A session closed before its bedtime\<close>

lemma riser_eq:
  "riser = \<lparr> isServiceActive = True, motionSubscription = Some 1, detectionInterval = Some 2,
       lastActivity = 24600000, motionBuffer = [], currentSession = None, listeners = [1],
       intervals = [2], item_sleepTracking = Some ''true'', item_sleep_sessions = None,
       console = [Console_log ''Sleep tracking started''], fresh = 3 \<rparr>"
  by (simp add: riser_def start_defs)

lemma riser_fields:
  "lastActivity riser = 24600000" "motionBuffer riser = []" "currentSession riser = None"
  by (simp_all add: riser_eq)

lemma dozing_fields:
  "lastActivity dozing = 24600000" "motionBuffer dozing = []" "currentSession dozing = Some riserSession"
  by (simp_all add: dozing_def riser_eq)

lemma tickProbability_flat:
  "tickProbability gh io w =
     min (min (real_of_int (t_now io - lastActivity w) / 900000) 1 * (4 / 10)
          + (if gh (t_now io) \<ge> 22 \<or> gh (t_now io) \<le> 6 then 3 / 10
             else if gh (t_now io) \<ge> 13 \<and> gh (t_now io) \<le> 15 then 15 / 100 else 0)
          + (1 - getRecentMotionLevel w) * (2 / 10)
          + (if gh (t_now io) \<ge> 23 \<or> gh (t_now io) \<le> 6 then 1 / 10 else 0)) 1"
  by (simp add: tickProbability_def calculateSleepProbability_def INACTIVITY_THRESHOLD_def Let_def)

lemma t_now_tickAt: "t_now (tickAt t) = t"
  by (simp add: tickAt_def)

lemmas prob_defs = tickProbability_flat t_now_tickAt utcHours_def

lemma run_idle:
  "currentSession w = None \<Longrightarrow> \<forall>t \<in> set ts. tickProbability gh (tickAt t) w \<le> 8 / 10 \<Longrightarrow>
   run gh (map (\<lambda>t. Tick (tickAt t)) ts) w = w"
  by (induction ts) (simp_all add: run_Nil run_Cons tick_idle del: step.simps)

lemma run_asleep:
  "currentSession w = Some cur \<Longrightarrow> \<forall>t \<in> set ts. tickProbability gh (tickAt t) w \<ge> 3 / 10 \<Longrightarrow>
   run gh (map (\<lambda>t. Tick (tickAt t)) ts) w = w"
  by (induction ts) (simp_all add: run_Nil run_Cons tick_asleep del: step.simps)

lemma riser_waits:
  "run utcHours (map (\<lambda>t. Tick (tickAt t))
       [24630000, 24660000, 24690000, 24720000, 24750000, 24780000, 24810000, 24840000,
        24870000, 24900000, 24930000, 24960000, 24990000, 25020000, 25050000]) riser = riser"
  by (rule run_idle) (simp_all add: prob_defs riser_fields level_empty)

lemma riser_dozes: "run utcHours [Tick (tickAt 25080000)] riser = dozing"
  by (simp add: dozing_def riserSession_def riser_eq eval_defs)

lemma dozing_sleeps:
  "run utcHours (map (\<lambda>t. Tick (tickAt t)) [25110000, 25140000, 25170000, 25200000]) dozing = dozing"
  by (rule run_asleep [OF dozing_fields(3)]) (simp add: prob_defs dozing_fields level_empty)

lemma dozing_wakes:
  "item_sleep_sessions (run utcHours [Motion 25210000 shake, Tick (tickAt 25230000)] dozing)
   = Some [\<lparr> session_id = toString 25080000, bedtime = 25500000, wakeTime = Some 25230000,
              duration = - 270000, quality = 20, isManual = False, confidence = 61 / 75,
              session_notes = None, createdAt = None, updatedAt = None \<rparr>]"
  by (simp add: dozing_def riserSession_def riser_eq eval_defs)

text \<open>
  C5. Every finalized session is claimed to have a duration of at least 0. Tracking starts
  at 06:50 and the timer fires every 30 seconds. The first fifteen ticks compute at most
  0.8; the tick at 06:58, after 8 minutes of inactivity, computes \<open>61/75 > 0.8\<close> and opens a
  session whose bedtime is 06:50 plus 15 minutes, 07:05, seven minutes ahead of the clock.
  The device is picked up at 07:00:10, and the tick at 07:00:30 computes \<open>2/225 < 0.3\<close> and
  stores the session with wake time 07:00:30 and duration \<open>-270000\<close> ms.
\<close>

theorem negative_duration_reachable:
  "item_sleep_sessions (run utcHours earlyRiser riser)
   = Some [\<lparr> session_id = toString 25080000, bedtime = 25500000, wakeTime = Some 25230000,
              duration = - 270000, quality = 20, isManual = False, confidence = 61 / 75,
              session_notes = None, createdAt = None, updatedAt = None \<rparr>]"
proof -
  let ?a = "map (\<lambda>t. Tick (tickAt t))
       [24630000, 24660000, 24690000, 24720000, 24750000, 24780000, 24810000, 24840000,
        24870000, 24900000, 24930000, 24960000, 24990000, 25020000, 25050000]"
  let ?b = "map (\<lambda>t. Tick (tickAt t)) [25110000, 25140000, 25170000, 25200000]"
  let ?c = "[Motion 25210000 shake, Tick (tickAt 25230000)]"
  have e: "earlyRiser = ?a @ [Tick (tickAt 25080000)] @ ?b @ ?c"
    by (simp add: earlyRiser_def)
  have "run utcHours earlyRiser riser
      = run utcHours ?c (run utcHours ?b (run utcHours [Tick (tickAt 25080000)] (run utcHours ?a riser)))"
    unfolding e run_append ..
  also have "\<dots> = run utcHours ?c dozing"
    unfolding riser_waits riser_dozes dozing_sleeps ..
  finally show ?thesis
    by (simp only: dozing_wakes)
qed

end
